theory Spec2Isabelle
  imports Main
begin

section \<open>The FFmpeg worker (ffmpeg-worker/server.ts)\<close>

text \<open>
  The worker has two POST handlers, \<^verbatim>\<open>/clip\<close> and \<^verbatim>\<open>/extract-audio\<close>. Each one is an
  \<^verbatim>\<open>async\<close> function: it validates the request body, names two scratch files, and then
  awaits four operations in turn (the fetch, the piping of the response body into the
  input scratch file, the ffmpeg subprocess, the upload), all inside one
  \<^verbatim>\<open>try\<close>/\<^verbatim>\<open>catch\<close>. JavaScript runs the code between two \<^verbatim>\<open>await\<close>s without
  interruption, so a handler is modelled as a machine whose states are the \<^verbatim>\<open>await\<close>
  points and whose transitions are the synchronous code that follows each of them.

  What the handler cannot decide (the clock, the network, the subprocess, the storage
  service) is read from an environment record, one per invocation; the file system is a
  state that is passed along explicitly, so that two invocations can be run against the
  same directory. In that directory \<^verbatim>\<open>unlinkSync\<close> of an existing file succeeds.

  The \<^verbatim>\<open>console\<close> output is not modelled, and with it the warning of
  \<^verbatim>\<open>/extract-audio\<close> about an output below 1024 bytes, which changes nothing else. How
  much memory the streams hold is not modelled either.

  The repository also holds \<^verbatim>\<open>dist/temp/server.js\<close>, an older build of the same two
  handlers: it reads the whole response with \<^verbatim>\<open>arrayBuffer\<close> and the whole output with
  \<^verbatim>\<open>readFileSync\<close>, puts \<^verbatim>\<open>response.statusText\<close> into the fetch error, ignores
  \<^verbatim>\<open>fileName\<close> in \<^verbatim>\<open>/extract-audio\<close> and passes other flags to ffmpeg. The model
  follows \<^verbatim>\<open>server.ts\<close>.
\<close>

subsection \<open>JavaScript values of the request body\<close>

text \<open>
  \<^verbatim>\<open>req.body\<close> is parsed JSON and is not typed by the handlers, so a field is any JSON
  value or is absent (\<^verbatim>\<open>undefined\<close>).

  A JSON number is parsed to an IEEE double, and the handlers look at a double only
  through \<^verbatim>\<open>!v\<close>, \<^verbatim>\<open>=== undefined\<close> and \<^verbatim>\<open>`${v}`\<close> (otherwise they hand it on to
  \<^verbatim>\<open>fetch\<close> or the upload). It is therefore given here the way Number::toString of
  ECMAScript reads it: a zero (of either sign), an infinity (\<^verbatim>\<open>1e999\<close> parses to one), or
  a sign with the integers \<open>s\<close> and \<open>n\<close> of that algorithm, where \<open>s > 0\<close> holds the \<open>k\<close>
  digits of the shortest decimal that denotes the double and the double is
  \<open>s\<close> times 10 to the power \<open>n - k\<close>. So 1.5 is \<open>NumFinite False 15 1\<close>,
  \<^verbatim>\<open>1e21\<close> is \<open>NumFinite False 1 22\<close>, and the
  JSON text \<^verbatim>\<open>9007199254740993\<close>, which is no double, is parsed to
  \<open>NumFinite False 9007199254740992 16\<close>. A \<open>NumFinite\<close> whose digits are not the
  shortest decimal of a double (\<open>s = 0\<close>, a multiple of 10, or more digits than a double
  needs) is the number of no request body. JSON has no NaN.

  \<open>JObject\<close> is an object without an own property named \<^verbatim>\<open>toString\<close>; the handlers read
  no property of a field. An object with such a property (its value is never a function)
  makes a template literal throw a TypeError; bodies with such a field are left out of
  the model.
\<close>

datatype number = NumZero | NumFinite bool nat int | NumInfinity bool

datatype jsval =
  JUndefined | JNull | JBool bool | JNum number | JStr string | JArr "jsval list" | JObject

text \<open>The test \<^verbatim>\<open>!v\<close> is \<open>\<not> truthy v\<close>.\<close>

fun truthy :: "jsval \<Rightarrow> bool" where
  "truthy JUndefined = False"
| "truthy JNull = False"
| "truthy (JBool b) = b"
| "truthy (JNum x) = (x \<noteq> NumZero)"
| "truthy (JStr s) = (s \<noteq> [])"
| "truthy (JArr vs) = True"
| "truthy JObject = True"

text \<open>
  The digits of a natural number. \<^verbatim>\<open>${Date.now()}\<close> is the digits of the clock reading:
  a time value is an integer of at most 16 digits.
\<close>

definition digit :: "nat \<Rightarrow> char" where
  "digit d = ''0123456789'' ! d"

function decimal :: "nat \<Rightarrow> string" where
  "decimal n = (if n < 10 then [digit n] else decimal (n div 10) @ [digit (n mod 10)])"
  by pat_completeness auto
termination
  by (relation "measure (\<lambda>n. n)") auto

declare decimal.simps [simp del]

text \<open>
  Number::toString for radix 10, from the digits \<open>s\<close> and the exponent \<open>n\<close> on: plain
  digits, with zeros appended or a point inserted, for \<open>-5 \<le> n \<le> 21\<close>, and the
  \<^verbatim>\<open>e\<close> notation otherwise, with the sign of \<open>n\<close> and the digits of \<open>\<bar>n - 1\<bar>\<close>.
\<close>

definition exponent_string :: "int \<Rightarrow> string" where
  "exponent_string n = (if n < 0 then ''-'' else ''+'') @ decimal (nat \<bar>n - 1\<bar>)"

definition finite_string :: "nat \<Rightarrow> int \<Rightarrow> string" where
  "finite_string s n =
     (let ds = decimal s; k = int (length ds) in
      if - 5 \<le> n \<and> n \<le> 21 then
        (if k \<le> n then ds @ replicate (nat (n - k)) CHR ''0''
         else if 0 < n then take (nat n) ds @ ''.'' @ drop (nat n) ds
         else ''0.'' @ replicate (nat (- n)) CHR ''0'' @ ds)
      else if k = 1 then ds @ ''e'' @ exponent_string n
      else take 1 ds @ ''.'' @ drop 1 ds @ ''e'' @ exponent_string n)"

fun number_string :: "number \<Rightarrow> string" where
  "number_string NumZero = ''0''"
| "number_string (NumFinite neg s n) = (if neg then ''-'' else []) @ finite_string s n"
| "number_string (NumInfinity neg) = (if neg then ''-Infinity'' else ''Infinity'')"

text \<open>\<^verbatim>\<open>Array.prototype.join\<close> with the separator \<^verbatim>\<open>,\<close>.\<close>

fun join_comma :: "string list \<Rightarrow> string" where
  "join_comma [] = []"
| "join_comma [x] = x"
| "join_comma (x # y # zs) = x @ '','' @ join_comma (y # zs)"

text \<open>
  What a template literal \<^verbatim>\<open>`${v}`\<close> inserts for a value. A string is inserted as it
  is; an array is the join of its elements, with nothing for \<^verbatim>\<open>null\<close> and
  \<^verbatim>\<open>undefined\<close>.
\<close>

fun to_string :: "jsval \<Rightarrow> string" where
  "to_string JUndefined = ''undefined''"
| "to_string JNull = ''null''"
| "to_string (JBool b) = (if b then ''true'' else ''false'')"
| "to_string (JNum x) = number_string x"
| "to_string (JStr s) = s"
| "to_string (JArr vs) =
     join_comma (map (\<lambda>v. if v = JUndefined \<or> v = JNull then [] else to_string v) vs)"
| "to_string JObject = ''[object Object]''"

subsection \<open>Responses, errors and observable calls\<close>

type_synonym path = string

text \<open>The file system, as far as the handlers look at it: the paths that exist.\<close>

type_synonym fs = "path set"

text \<open>
  A thrown value, as the \<^verbatim>\<open>catch\<close> block reads it: \<^verbatim>\<open>error.message\<close> and
  \<^verbatim>\<open>error.stderr\<close> (\<open>None\<close> when the property is \<^verbatim>\<open>undefined\<close>).
\<close>

datatype js_error = JsError (message: string) (stderr: "string option")

text \<open>
  The JSON bodies the handlers send: \<^verbatim>\<open>{ error, stderr }\<close> (an \<^verbatim>\<open>undefined\<close>
  \<^verbatim>\<open>stderr\<close> is dropped by \<^verbatim>\<open>res.json\<close>), \<^verbatim>\<open>{ clippedUrl }\<close> and \<^verbatim>\<open>{ audioUrl }\<close>.
\<close>

datatype body = ErrorBody string "string option" | ClippedUrl string | AudioUrl string

datatype response = Response (status: nat) (body: body)

text \<open>
  The arguments of \<^verbatim>\<open>supabase.storage.from(bucket).upload(key, stream, options)\<close>; the
  stream is the read stream of \<open>source\<close>.
\<close>

record upload_call =
  bucket :: string
  key :: jsval
  source :: path
  contentType :: string
  upsert :: bool
  duplex :: string

text \<open>The calls a handler makes to the outside, in the order it makes them.\<close>

datatype event =
    Fetch jsval
  | CreateWriteStream path
  | Exec string
  | StatSync path
  | CreateReadStream path
  | Upload upload_call
  | GetPublicUrl string jsval
  | UnlinkSync path

subsection \<open>The environment of one invocation\<close>

text \<open>
  \<open>FetchResponse ok has_body\<close> is a response with \<^verbatim>\<open>response.ok\<close> and a non-null
  \<^verbatim>\<open>response.body\<close>; \<open>FetchRejects\<close> is a rejected \<^verbatim>\<open>fetch\<close> promise.
\<close>

datatype fetch_result = FetchRejects js_error | FetchResponse bool bool

text \<open>
  The promise around the write stream resolves on the stream's \<^verbatim>\<open>finish\<close> event and
  rejects on its \<^verbatim>\<open>error\<close> event; nothing else settles it. The boolean says whether the
  file exists afterwards.
\<close>

datatype pipe_result = PipeFinish | PipeError js_error bool | PipeNeverSettles bool

text \<open>
  \<^verbatim>\<open>execAsync\<close> resolves when the shell command exits with 0 and rejects otherwise
  (non-zero exit, command not found) with an error carrying \<^verbatim>\<open>message\<close> and the captured
  \<^verbatim>\<open>stderr\<close>. The boolean says whether ffmpeg wrote its output file.
\<close>

datatype exec_result = ExecOk bool | ExecFails string string bool

text \<open>The storage client returns \<^verbatim>\<open>{ data, error }\<close>, or its promise rejects.\<close>

datatype upload_result = UploadOk | UploadError js_error | UploadRejects js_error

record env =
  tempDir :: path
  now_input :: nat
  now_output :: nat
  now_key :: nat
  fetch_result :: fetch_result
  pipe_result :: pipe_result
  exec_result :: exec_result
  upload_result :: upload_result
  publicUrl :: "string \<Rightarrow> jsval \<Rightarrow> string"

text \<open>
  \<^verbatim>\<open>path.join(tempDir, name)\<close> for a directory without a trailing separator and a plain
  file name.
\<close>

definition path_join :: "path \<Rightarrow> string \<Rightarrow> path" where
  "path_join dir name = dir @ ''/'' @ name"

subsection \<open>Cleanup and the catch block\<close>

text \<open>\<^verbatim>\<open>if (fs.existsSync(p)) fs.unlinkSync(p);\<close>\<close>

definition unlink_if_exists :: "path \<Rightarrow> fs \<Rightarrow> event list \<times> fs" where
  "unlink_if_exists p files = (if p \<in> files then ([UnlinkSync p], files - {p}) else ([], files))"

definition cleanup :: "path \<Rightarrow> path \<Rightarrow> fs \<Rightarrow> event list \<times> fs" where
  "cleanup tempInput tempOutput files =
     (let (ev1, files1) = unlink_if_exists tempInput files;
          (ev2, files2) = unlink_if_exists tempOutput files1
      in (ev1 @ ev2, files2))"

text \<open>
  The states of a handler: waiting at one of its four \<^verbatim>\<open>await\<close>s, having sent its
  response, or waiting forever on a promise that never settles.
\<close>

datatype stage = Fetching | Downloading | Transcoding | Uploading | Responded response | Stalled

text \<open>
  The \<^verbatim>\<open>catch\<close> block, the same in both handlers: clean up, then
  \<^verbatim>\<open>res.status(500).json({ error: error.message, stderr: error.stderr })\<close>.
\<close>

definition catch_block :: "path \<Rightarrow> path \<Rightarrow> js_error \<Rightarrow> fs \<Rightarrow> stage \<times> event list \<times> fs" where
  "catch_block tempInput tempOutput e files =
     (let (ev, files') = cleanup tempInput tempOutput files
      in (Responded (Response 500 (ErrorBody (message e) (stderr e))), ev, files'))"

text \<open>An external writer (the write stream, ffmpeg) creating a file, or not.\<close>

definition written :: "bool \<Rightarrow> path \<Rightarrow> fs \<Rightarrow> fs" where
  "written w p files = (if w then insert p files else files)"

text \<open>The message of the error \<^verbatim>\<open>fs.statSync\<close> throws on a missing file.\<close>

definition enoent_stat :: "path \<Rightarrow> js_error" where
  "enoent_stat p = JsError (''ENOENT: no such file or directory, stat '' @ [CHR 0x27] @ p @ [CHR 0x27]) None"

subsection \<open>Running a handler from await to await\<close>

record request =
  inputUrl :: jsval
  startTime :: jsval
  endTime :: jsval
  fileName :: jsval

text \<open>
  What one run leaves behind: the state it ended in, the calls it made, and the file
  system as it was at each \<^verbatim>\<open>await\<close> and when the handler returned (the last entry).
\<close>

record outcome =
  final :: stage
  trace :: "event list"
  history :: "fs list"

fun waiting :: "stage \<Rightarrow> bool" where
  "waiting (Responded r) = False"
| "waiting Stalled = False"
| "waiting st = True"

fun response_of :: "stage \<Rightarrow> response option" where
  "response_of (Responded r) = Some r"
| "response_of st = None"

text \<open>
  \<open>drive resume n st files\<close> lets the awaited operations complete one after the other,
  at most \<open>n\<close> of them, and stops at a state that is not waiting.
\<close>

fun drive :: "(stage \<Rightarrow> fs \<Rightarrow> stage \<times> event list \<times> fs) \<Rightarrow> nat \<Rightarrow> stage \<Rightarrow> fs \<Rightarrow> outcome" where
  "drive resume 0 st files = \<lparr>final = st, trace = [], history = [files]\<rparr>"
| "drive resume (Suc n) st files =
     (if waiting st then
        (let (st', ev, files') = resume st files;
             rest = drive resume n st' files'
         in rest\<lparr>trace := ev @ trace rest, history := files # history rest\<rparr>)
      else \<lparr>final = st, trace = [], history = [files]\<rparr>)"

definition run :: "(stage \<times> event list \<times> fs) \<Rightarrow> (stage \<Rightarrow> fs \<Rightarrow> stage \<times> event list \<times> fs) \<Rightarrow> outcome" where
  "run start resume =
     (let (st, ev, files) = start;
          rest = drive resume (Suc (Suc (Suc (Suc 0)))) st files
      in rest\<lparr>trace := ev @ trace rest\<rparr>)"

subsection \<open>POST /clip\<close>

definition clip_tempInput :: "env \<Rightarrow> path" where
  "clip_tempInput env = path_join (tempDir env) (''input_'' @ decimal (now_input env) @ ''.mp4'')"

definition clip_tempOutput :: "env \<Rightarrow> path" where
  "clip_tempOutput env = path_join (tempDir env) (''output_'' @ decimal (now_output env) @ ''.mp4'')"

definition filterComplex :: string where
  "filterComplex = ''scale=1080:1920:force_original_aspect_ratio=decrease,pad=1080:1920:(ow-iw)/2:(oh-ih)/2''"

definition clip_command :: "env \<Rightarrow> request \<Rightarrow> string" where
  \<open>clip_command env req =
     ''ffmpeg -ss '' @ to_string (startTime req) @ '' -to '' @ to_string (endTime req)
     @ '' -i "'' @ clip_tempInput env @ ''" -vf "'' @ filterComplex
     @ ''" -c:v libx264 -c:a aac -preset ultrafast -crf 30 -threads 1 -y "''
     @ clip_tempOutput env @ ''"''\<close>

definition clip_invalid :: "request \<Rightarrow> bool" where
  "clip_invalid req \<longleftrightarrow>
     \<not> truthy (inputUrl req) \<or> startTime req = JUndefined \<or> endTime req = JUndefined
     \<or> \<not> truthy (fileName req)"

definition clip_upload :: "env \<Rightarrow> request \<Rightarrow> upload_call" where
  "clip_upload env req =
     \<lparr>bucket = ''processed-videos'', key = fileName req, source = clip_tempOutput env,
      contentType = ''video/mp4'', upsert = True, duplex = ''half''\<rparr>"

text \<open>The code from the start of the handler to \<^verbatim>\<open>await fetch(inputUrl)\<close>.\<close>

definition clip_start :: "env \<Rightarrow> request \<Rightarrow> fs \<Rightarrow> stage \<times> event list \<times> fs" where
  "clip_start env req files =
     (if clip_invalid req
      then (Responded (Response 400 (ErrorBody
              ''Missing required parameters: inputUrl, startTime, endTime, fileName'' None)),
            [], files)
      else (Fetching, [Fetch (inputUrl req)], files))"

text \<open>
  The awaited operation completes, with its effect on the scratch directory, and the
  handler runs to its next \<^verbatim>\<open>await\<close> or to its response.
\<close>

fun clip_resume :: "env \<Rightarrow> request \<Rightarrow> stage \<Rightarrow> fs \<Rightarrow> stage \<times> event list \<times> fs" where
  "clip_resume env req Fetching files =
     (case fetch_result env of
        FetchRejects e \<Rightarrow> catch_block (clip_tempInput env) (clip_tempOutput env) e files
      | FetchResponse ok has_body \<Rightarrow>
          if \<not> ok then
            catch_block (clip_tempInput env) (clip_tempOutput env)
              (JsError ''Failed to fetch video'' None) files
          else if \<not> has_body then
            catch_block (clip_tempInput env) (clip_tempOutput env)
              (JsError ''No response body'' None) files
          else (Downloading, [CreateWriteStream (clip_tempInput env)], files))"
| "clip_resume env req Downloading files =
     (case pipe_result env of
        PipeFinish \<Rightarrow>
          (Transcoding, [Exec (clip_command env req)], insert (clip_tempInput env) files)
      | PipeError e created \<Rightarrow>
          catch_block (clip_tempInput env) (clip_tempOutput env) e
            (written created (clip_tempInput env) files)
      | PipeNeverSettles created \<Rightarrow> (Stalled, [], written created (clip_tempInput env) files))"
| "clip_resume env req Transcoding files =
     (case exec_result env of
        ExecFails msg err wrote \<Rightarrow>
          catch_block (clip_tempInput env) (clip_tempOutput env) (JsError msg (Some err))
            (written wrote (clip_tempOutput env) files)
      | ExecOk wrote \<Rightarrow>
          (let files1 = written wrote (clip_tempOutput env) files in
           if clip_tempOutput env \<notin> files1 then
             (let (st, ev, files2) =
                    catch_block (clip_tempInput env) (clip_tempOutput env)
                      (enoent_stat (clip_tempOutput env)) files1
              in (st, StatSync (clip_tempOutput env) # ev, files2))
           else
             (Uploading,
              [StatSync (clip_tempOutput env), CreateReadStream (clip_tempOutput env),
               Upload (clip_upload env req)],
              files1)))"
| "clip_resume env req Uploading files =
     (case upload_result env of
        UploadRejects e \<Rightarrow> catch_block (clip_tempInput env) (clip_tempOutput env) e files
      | UploadError e \<Rightarrow> catch_block (clip_tempInput env) (clip_tempOutput env) e files
      | UploadOk \<Rightarrow>
          (let (ev, files') = cleanup (clip_tempInput env) (clip_tempOutput env) files
           in (Responded (Response 200
                 (ClippedUrl (publicUrl env ''processed-videos'' (fileName req)))),
               GetPublicUrl ''processed-videos'' (fileName req) # ev, files')))"
| "clip_resume env req st files = (st, [], files)"

definition clip :: "env \<Rightarrow> request \<Rightarrow> fs \<Rightarrow> outcome" where
  "clip env req files = run (clip_start env req files) (clip_resume env req)"

subsection \<open>POST /extract-audio\<close>

definition audio_tempInput :: "env \<Rightarrow> path" where
  "audio_tempInput env =
     path_join (tempDir env) (''audio_input_'' @ decimal (now_input env) @ ''.mp4'')"

definition audio_tempOutput :: "env \<Rightarrow> path" where
  "audio_tempOutput env =
     path_join (tempDir env) (''audio_output_'' @ decimal (now_output env) @ ''.wav'')"

definition storageFileName :: "env \<Rightarrow> request \<Rightarrow> string" where
  "storageFileName env req =
     (if truthy (fileName req) then to_string (fileName req) @ ''_audio.wav''
      else ''audio_'' @ decimal (now_key env) @ ''.wav'')"

definition audio_command :: "env \<Rightarrow> string" where
  \<open>audio_command env =
     ''ffmpeg -i "'' @ audio_tempInput env @ ''" -ac 1 -ar 16000 -vn -threads 1 -y "''
     @ audio_tempOutput env @ ''"''\<close>

definition audio_invalid :: "request \<Rightarrow> bool" where
  "audio_invalid req \<longleftrightarrow> \<not> truthy (inputUrl req)"

definition audio_upload :: "env \<Rightarrow> request \<Rightarrow> upload_call" where
  "audio_upload env req =
     \<lparr>bucket = ''processed-videos'', key = JStr (storageFileName env req),
      source = audio_tempOutput env, contentType = ''audio/wav'', upsert = True, duplex = ''half''\<rparr>"

definition audio_start :: "env \<Rightarrow> request \<Rightarrow> fs \<Rightarrow> stage \<times> event list \<times> fs" where
  "audio_start env req files =
     (if audio_invalid req
      then (Responded (Response 400 (ErrorBody ''Missing required parameter: inputUrl'' None)),
            [], files)
      else (Fetching, [Fetch (inputUrl req)], files))"

fun audio_resume :: "env \<Rightarrow> request \<Rightarrow> stage \<Rightarrow> fs \<Rightarrow> stage \<times> event list \<times> fs" where
  "audio_resume env req Fetching files =
     (case fetch_result env of
        FetchRejects e \<Rightarrow> catch_block (audio_tempInput env) (audio_tempOutput env) e files
      | FetchResponse ok has_body \<Rightarrow>
          if \<not> ok then
            catch_block (audio_tempInput env) (audio_tempOutput env)
              (JsError ''Failed to fetch video'' None) files
          else if \<not> has_body then
            catch_block (audio_tempInput env) (audio_tempOutput env)
              (JsError ''No response body'' None) files
          else (Downloading, [CreateWriteStream (audio_tempInput env)], files))"
| "audio_resume env req Downloading files =
     (case pipe_result env of
        PipeFinish \<Rightarrow>
          (Transcoding, [Exec (audio_command env)], insert (audio_tempInput env) files)
      | PipeError e created \<Rightarrow>
          catch_block (audio_tempInput env) (audio_tempOutput env) e
            (written created (audio_tempInput env) files)
      | PipeNeverSettles created \<Rightarrow> (Stalled, [], written created (audio_tempInput env) files))"
| "audio_resume env req Transcoding files =
     (case exec_result env of
        ExecFails msg err wrote \<Rightarrow>
          catch_block (audio_tempInput env) (audio_tempOutput env) (JsError msg (Some err))
            (written wrote (audio_tempOutput env) files)
      | ExecOk wrote \<Rightarrow>
          (let files1 = written wrote (audio_tempOutput env) files in
           if audio_tempOutput env \<notin> files1 then
             (let (st, ev, files2) =
                    catch_block (audio_tempInput env) (audio_tempOutput env)
                      (enoent_stat (audio_tempOutput env)) files1
              in (st, StatSync (audio_tempOutput env) # ev, files2))
           else
             (Uploading,
              [StatSync (audio_tempOutput env), CreateReadStream (audio_tempOutput env),
               Upload (audio_upload env req)],
              files1)))"
| "audio_resume env req Uploading files =
     (case upload_result env of
        UploadRejects e \<Rightarrow> catch_block (audio_tempInput env) (audio_tempOutput env) e files
      | UploadError e \<Rightarrow> catch_block (audio_tempInput env) (audio_tempOutput env) e files
      | UploadOk \<Rightarrow>
          (let (ev, files') = cleanup (audio_tempInput env) (audio_tempOutput env) files
           in (Responded (Response 200
                 (AudioUrl (publicUrl env ''processed-videos'' (JStr (storageFileName env req))))),
               GetPublicUrl ''processed-videos'' (JStr (storageFileName env req)) # ev, files')))"
| "audio_resume env req st files = (st, [], files)"

definition extract_audio :: "env \<Rightarrow> request \<Rightarrow> fs \<Rightarrow> outcome" where
  "extract_audio env req files = run (audio_start env req files) (audio_resume env req)"

subsection \<open>Reading a trace\<close>

text \<open>The shell commands handed to \<^verbatim>\<open>execAsync\<close>, and the uploads, of a trace.\<close>

fun execs :: "event list \<Rightarrow> string list" where
  "execs [] = []"
| "execs (Exec c # evs) = c # execs evs"
| "execs (e # evs) = execs evs"

fun uploads :: "event list \<Rightarrow> upload_call list" where
  "uploads [] = []"
| "uploads (Upload u # evs) = u # uploads evs"
| "uploads (e # evs) = uploads evs"

text \<open>The \<^verbatim>\<open>unlinkSync\<close> calls of a cleanup, written out.\<close>

definition unlinks :: "path \<Rightarrow> path \<Rightarrow> fs \<Rightarrow> event list" where
  "unlinks a b files =
     (if a \<in> files then [UnlinkSync a] else []) @ (if b \<in> files - {a} then [UnlinkSync b] else [])"

subsection \<open>Sample inputs\<close>

text \<open>
  An environment in which every stage succeeds and every reading of the clock is 1000,
  and a request for each endpoint.
\<close>

definition env_ok :: env where
  "env_ok =
     \<lparr>tempDir = ''/app/temp'', now_input = 1000, now_output = 1000, now_key = 1000,
      fetch_result = FetchResponse True True, pipe_result = PipeFinish,
      exec_result = ExecOk True, upload_result = UploadOk,
      publicUrl = (\<lambda>b k. ''https://storage.example/'' @ b @ ''/'' @ to_string k)\<rparr>"

definition clip_request :: request where
  "clip_request =
     \<lparr>inputUrl = JStr ''https://example.com/v.mp4'', startTime = JNum NumZero,
      endTime = JNum (NumFinite False 5 1),
      fileName = JStr ''clip.mp4''\<rparr>"

definition audio_request :: request where
  "audio_request =
     \<lparr>inputUrl = JStr ''https://example.com/v.mp4'', startTime = JUndefined,
      endTime = JUndefined, fileName = JStr ''talk''\<rparr>"

text \<open>A second \<^verbatim>\<open>/clip\<close> request, for another video.\<close>

definition other_request :: request where
  "other_request =
     \<lparr>inputUrl = JStr ''https://example.com/w.mp4'', startTime = JNum (NumFinite False 2 1),
      endTime = JNum (NumFinite False 7 1),
      fileName = JStr ''other.mp4''\<rparr>"

text \<open>A request whose times are strings that a shell would not read as one word each.\<close>

definition unquoted_request :: request where
  "unquoted_request =
     \<lparr>inputUrl = JStr ''https://example.com/v.mp4'', startTime = JStr ''1; echo x'',
      endTime = JStr ''9 -an'', fileName = JStr ''clip.mp4''\<rparr>"

text \<open>A request for the seconds from \<^verbatim>\<open>1.5\<close> to \<^verbatim>\<open>1e21\<close>.\<close>

definition fractional_request :: request where
  "fractional_request =
     \<lparr>inputUrl = JStr ''https://example.com/v.mp4'', startTime = JNum (NumFinite False 15 1),
      endTime = JNum (NumFinite False 1 22), fileName = JStr ''clip.mp4''\<rparr>"

section \<open>Properties\<close>

subsection \<open>Decimal rendering\<close>

lemma decimal_1000: "decimal 1000 = ''1000''"
  by (simp add: decimal.simps digit_def)

lemma digit_inj: "a < 10 \<Longrightarrow> b < 10 \<Longrightarrow> digit a = digit b \<Longrightarrow> a = b"
  unfolding digit_def by (subst (asm) nth_eq_iff_index_eq) simp_all

lemma decimal_nonempty: "decimal n \<noteq> []" "[] \<noteq> decimal n"
  by (subst decimal.simps, simp)+

lemma replicate_numeral: "replicate (numeral k) x = x # replicate (pred_numeral k) x"
  by (simp add: numeral_eq_Suc)

lemmas num_eval =
  finite_string_def exponent_string_def decimal.simps digit_def Let_def replicate_numeral

text \<open>The renderings of some values, as a JavaScript engine prints them.\<close>

lemma number_renderings:
  "to_string (JNum NumZero) = ''0''"
  "to_string (JNum (NumFinite False 5 1)) = ''5''"
  "to_string (JNum (NumFinite False 15 1)) = ''1.5''"
  "to_string (JNum (NumFinite True 25 1)) = ''-2.5''"
  "to_string (JNum (NumFinite False 1 3)) = ''100''"
  "to_string (JNum (NumFinite False 1 21)) = ''100000000000000000000''"
  "to_string (JNum (NumFinite False 1 22)) = ''1e+21''"
  "to_string (JNum (NumFinite False 9007199254740992 16)) = ''9007199254740992''"
  "to_string (JNum (NumFinite False 12345678901234568 21)) = ''123456789012345680000''"
  "to_string (JNum (NumFinite False 5 0)) = ''0.5''"
  "to_string (JNum (NumFinite False 1 (- 5))) = ''0.000001''"
  "to_string (JNum (NumFinite False 1 (- 6))) = ''1e-7''"
  "to_string (JNum (NumFinite False 15 301)) = ''1.5e+300''"
  "to_string (JNum (NumInfinity False)) = ''Infinity''"
  "to_string (JArr [JNum (NumFinite False 1 1), JNull, JStr ''a'', JArr [JBool True, JObject]])
     = ''1,,a,true,[object Object]''"
  by (simp_all add: num_eval)

text \<open>Two clock readings with the same rendering are the same reading.\<close>

lemma decimal_inj: "decimal n = decimal m \<Longrightarrow> n = m"
proof (induction n arbitrary: m rule: decimal.induct)
  case (1 n)
  show ?case
  proof (cases "n < 10")
    case True
    show ?thesis
    proof (cases "m < 10")
      case True
      with \<open>n < 10\<close> "1.prems" show ?thesis
        by (simp add: decimal.simps [of n] decimal.simps [of m] digit_inj)
    next
      case False
      with \<open>n < 10\<close> "1.prems" show ?thesis
        by (simp add: decimal.simps [of n] decimal.simps [of m] decimal_nonempty)
    qed
  next
    case False
    show ?thesis
    proof (cases "m < 10")
      case True
      with False "1.prems" show ?thesis
        by (simp add: decimal.simps [of n] decimal.simps [of m] decimal_nonempty)
    next
      case mbig: False
      with False "1.prems" have eq: "decimal (n div 10) = decimal (m div 10)"
        and d: "digit (n mod 10) = digit (m mod 10)"
        by (simp_all add: decimal.simps [of n] decimal.simps [of m])
      from "1.IH" [OF False eq] have "n div 10 = m div 10" .
      moreover from d have "n mod 10 = m mod 10" by (simp add: digit_inj)
      ultimately show ?thesis by (metis div_mult_mod_eq)
    qed
  qed
qed

text \<open>So two generated storage names are equal only for equal clock readings.\<close>

lemma generated_key_inj:
  "''audio_'' @ decimal a @ ''.wav'' = ''audio_'' @ decimal b @ ''.wav'' \<Longrightarrow> a = b"
  by (simp add: decimal_inj)

subsection \<open>Scratch paths\<close>

text \<open>
  The two scratch paths of one invocation differ, and so do those of the two endpoints;
  two invocations of one endpoint in the same directory have the same input path exactly
  when they read the same clock value.
\<close>

lemma clip_paths_differ: "clip_tempInput env \<noteq> clip_tempOutput env"
  by (simp add: clip_tempInput_def clip_tempOutput_def path_join_def)

lemma audio_paths_differ: "audio_tempInput env \<noteq> audio_tempOutput env"
  by (simp add: audio_tempInput_def audio_tempOutput_def path_join_def)

lemma endpoint_paths_differ:
  assumes "tempDir env' = tempDir env"
  shows "clip_tempInput env \<noteq> audio_tempInput env'" "clip_tempInput env \<noteq> audio_tempOutput env'"
    "clip_tempOutput env \<noteq> audio_tempInput env'" "clip_tempOutput env \<noteq> audio_tempOutput env'"
  using assms
  by (simp_all add: clip_tempInput_def clip_tempOutput_def audio_tempInput_def
        audio_tempOutput_def path_join_def)

lemma clip_tempInput_eq_iff:
  assumes "tempDir env' = tempDir env"
  shows "clip_tempInput env' = clip_tempInput env \<longleftrightarrow> now_input env' = now_input env"
  using assms decimal_inj [of "now_input env'" "now_input env"]
  by (auto simp: clip_tempInput_def path_join_def)

lemma audio_tempInput_eq_iff:
  assumes "tempDir env' = tempDir env"
  shows "audio_tempInput env' = audio_tempInput env \<longleftrightarrow> now_input env' = now_input env"
  using assms decimal_inj [of "now_input env'" "now_input env"]
  by (auto simp: audio_tempInput_def path_join_def)

subsection \<open>Cleanup\<close>

lemma cleanup_eq: "cleanup a b files = (unlinks a b files, files - {a, b})"
  by (auto simp: cleanup_def unlink_if_exists_def unlinks_def)

lemma catch_block_eq:
  "catch_block a b e files =
     (Responded (Response 500 (ErrorBody (message e) (stderr e))), unlinks a b files, files - {a, b})"
  by (simp add: catch_block_def cleanup_eq)

lemma execs_unlinks [simp]: "execs (unlinks a b files) = []"
  by (simp add: unlinks_def)

lemma uploads_unlinks [simp]: "uploads (unlinks a b files) = []"
  by (simp add: unlinks_def)

lemmas handler_defs = clip_def extract_audio_def run_def clip_start_def audio_start_def

lemmas oracle_splits =
  fetch_result.splits pipe_result.splits exec_result.splits upload_result.splits

subsection \<open>One step of a handler\<close>

text \<open>A step adds nothing to the directory but the invocation's two scratch files.\<close>

lemma clip_resume_files:
  assumes "clip_resume env req st files = (st', ev, files')"
  shows "files' \<subseteq> files \<union> {clip_tempInput env, clip_tempOutput env}"
  using assms
  by (cases st)
     (auto simp: catch_block_eq cleanup_eq written_def Let_def split: oracle_splits if_splits)

lemma audio_resume_files:
  assumes "audio_resume env req st files = (st', ev, files')"
  shows "files' \<subseteq> files \<union> {audio_tempInput env, audio_tempOutput env}"
  using assms
  by (cases st)
     (auto simp: catch_block_eq cleanup_eq written_def Let_def split: oracle_splits if_splits)

text \<open>A step that ends in a response has removed both of them.\<close>

lemma clip_resume_clean:
  assumes "waiting st" "clip_resume env req st files = (Responded r, ev, files')"
  shows "clip_tempInput env \<notin> files' \<and> clip_tempOutput env \<notin> files'"
  using assms
  by (cases st)
     (auto simp: catch_block_eq cleanup_eq written_def Let_def split: oracle_splits if_splits)

lemma audio_resume_clean:
  assumes "waiting st" "audio_resume env req st files = (Responded r, ev, files')"
  shows "audio_tempInput env \<notin> files' \<and> audio_tempOutput env \<notin> files'"
  using assms
  by (cases st)
     (auto simp: catch_block_eq cleanup_eq written_def Let_def split: oracle_splits if_splits)

subsection \<open>A whole run\<close>

lemma drive_history:
  assumes step: "\<And>st files st' ev files'. resume st files = (st', ev, files') \<Longrightarrow> files' \<subseteq> files \<union> S"
  shows "\<forall>f \<in> set (history (drive resume n st files)). f \<subseteq> files \<union> S"
proof (induction n arbitrary: st files)
  case 0
  show ?case by simp
next
  case (Suc n)
  show ?case
  proof (cases "waiting st")
    case False
    then show ?thesis by simp
  next
    case True
    obtain st' ev files' where r: "resume st files = (st', ev, files')"
      by (cases "resume st files") auto
    have sub: "files' \<subseteq> files \<union> S" using step [OF r] .
    have "\<forall>f \<in> set (history (drive resume n st' files')). f \<subseteq> files' \<union> S"
      using Suc.IH .
    with sub have "\<forall>f \<in> set (history (drive resume n st' files')). f \<subseteq> files \<union> S"
      by blast
    with True r show ?thesis by (simp add: Let_def)
  qed
qed

lemma drive_clean:
  assumes step: "\<And>st files r ev files'.
      waiting st \<Longrightarrow> resume st files = (Responded r, ev, files') \<Longrightarrow> P files'"
    and "waiting st" and "final (drive resume n st files) = Responded r"
  shows "P (last (history (drive resume n st files)))"
  using assms(2,3)
proof (induction n arbitrary: st files)
  case 0
  then show ?case by auto
next
  case (Suc n)
  obtain st' ev files' where r: "resume st files = (st', ev, files')"
    by (cases "resume st files") auto
  have fin: "final (drive resume n st' files') = Responded r"
    using Suc.prems r by (simp add: Let_def)
  have ne: "history (drive resume n st' files') \<noteq> []"
    by (cases n) (auto simp: Let_def split: prod.splits)
  show ?case
  proof (cases "waiting st'")
    case True
    from Suc.IH [OF True fin] show ?thesis
      using Suc.prems r ne by (simp add: Let_def)
  next
    case False
    then have d: "drive resume n st' files' = \<lparr>final = st', trace = [], history = [files']\<rparr>"
      by (cases n) auto
    with fin have "st' = Responded r" by simp
    with step [OF Suc.prems(1)] r have "P files'" by simp
    with d Suc.prems r show ?thesis by (simp add: Let_def)
  qed
qed

text \<open>
  Four awaited operations are all a handler has: a run ends with a response, unless the
  promise around the write stream never settles.
\<close>

lemma clip_completes:
  "(\<exists>r. final (clip env req files) = Responded r) \<or>
   (final (clip env req files) = Stalled \<and> fetch_result env = FetchResponse True True
      \<and> (\<exists>c. pipe_result env = PipeNeverSettles c))"
  by (simp add: handler_defs catch_block_eq cleanup_eq Let_def split: oracle_splits)

lemma audio_completes:
  "(\<exists>r. final (extract_audio env req files) = Responded r) \<or>
   (final (extract_audio env req files) = Stalled \<and> fetch_result env = FetchResponse True True
      \<and> (\<exists>c. pipe_result env = PipeNeverSettles c))"
  by (simp add: handler_defs catch_block_eq cleanup_eq Let_def split: oracle_splits)

lemma clip_history:
  assumes "files \<in> set (history (clip env req files0))"
  shows "files - files0 \<subseteq> {clip_tempInput env, clip_tempOutput env}"
proof -
  have "\<forall>f \<in> set (history (drive (clip_resume env req) n st files0)).
          f \<subseteq> files0 \<union> {clip_tempInput env, clip_tempOutput env}" for n st
    by (rule drive_history) (rule clip_resume_files)
  with assms show ?thesis
    by (auto simp: handler_defs Let_def simp del: drive.simps split: if_splits)
qed

lemma audio_history:
  assumes "files \<in> set (history (extract_audio env req files0))"
  shows "files - files0 \<subseteq> {audio_tempInput env, audio_tempOutput env}"
proof -
  have "\<forall>f \<in> set (history (drive (audio_resume env req) n st files0)).
          f \<subseteq> files0 \<union> {audio_tempInput env, audio_tempOutput env}" for n st
    by (rule drive_history) (rule audio_resume_files)
  with assms show ?thesis
    by (auto simp: handler_defs Let_def simp del: drive.simps split: if_splits)
qed

lemma clip_clean:
  assumes "\<not> clip_invalid req" "final (clip env req files0) = Responded r"
  shows "clip_tempInput env \<notin> last (history (clip env req files0)) \<and>
         clip_tempOutput env \<notin> last (history (clip env req files0))"
proof -
  let ?d = "drive (clip_resume env req) (Suc (Suc (Suc (Suc 0)))) Fetching files0"
  from assms have fin: "final ?d = Responded r" and h: "history (clip env req files0) = history ?d"
    by (simp_all add: handler_defs Let_def del: drive.simps)
  have "clip_tempInput env \<notin> last (history ?d) \<and> clip_tempOutput env \<notin> last (history ?d)"
    by (rule drive_clean [where P = "\<lambda>f. clip_tempInput env \<notin> f \<and> clip_tempOutput env \<notin> f",
          OF _ _ fin]) (erule (1) clip_resume_clean, simp)
  with h show ?thesis by simp
qed

lemma audio_clean:
  assumes "\<not> audio_invalid req" "final (extract_audio env req files0) = Responded r"
  shows "audio_tempInput env \<notin> last (history (extract_audio env req files0)) \<and>
         audio_tempOutput env \<notin> last (history (extract_audio env req files0))"
proof -
  let ?d = "drive (audio_resume env req) (Suc (Suc (Suc (Suc 0)))) Fetching files0"
  from assms have fin: "final ?d = Responded r"
    and h: "history (extract_audio env req files0) = history ?d"
    by (simp_all add: handler_defs Let_def del: drive.simps)
  have "audio_tempInput env \<notin> last (history ?d) \<and> audio_tempOutput env \<notin> last (history ?d)"
    by (rule drive_clean [where P = "\<lambda>f. audio_tempInput env \<notin> f \<and> audio_tempOutput env \<notin> f",
          OF _ _ fin]) (erule (1) audio_resume_clean, simp)
  with h show ?thesis by simp
qed

lemma card_two: "A \<subseteq> {a, b} \<Longrightarrow> card A \<le> 2"
proof -
  assume "A \<subseteq> {a, b}"
  then have "card A \<le> card {a, b}" by (intro card_mono) simp_all
  also have "\<dots> \<le> 2" by (simp add: card_insert_if)
  finally show ?thesis .
qed

subsection \<open>What a run calls, and what it answers\<close>

lemma clip_uploads:
  "uploads (trace (clip env req files)) = [] \<or>
   uploads (trace (clip env req files)) = [clip_upload env req]"
  by (simp add: handler_defs catch_block_eq cleanup_eq Let_def split: oracle_splits)

lemma clip_success:
  assumes "final (clip env req files) = Responded (Response 200 b)"
  shows "uploads (trace (clip env req files)) = [clip_upload env req] \<and>
         b = ClippedUrl (publicUrl env ''processed-videos'' (fileName req))"
  using assms
  by (simp add: handler_defs catch_block_eq cleanup_eq Let_def split: oracle_splits if_splits)

lemma audio_success:
  assumes "final (extract_audio env req files) = Responded (Response 200 b)"
  shows "uploads (trace (extract_audio env req files)) = [audio_upload env req] \<and>
         b = AudioUrl (publicUrl env ''processed-videos'' (JStr (storageFileName env req))) \<and>
         GetPublicUrl ''processed-videos'' (JStr (storageFileName env req))
           \<in> set (trace (extract_audio env req files))"
  using assms
  by (simp add: handler_defs catch_block_eq cleanup_eq Let_def split: oracle_splits if_splits)

lemma clip_execs:
  "execs (trace (clip env req files)) = [] \<or>
   execs (trace (clip env req files)) = [clip_command env req]"
  by (simp add: handler_defs catch_block_eq cleanup_eq Let_def split: oracle_splits)

lemma clip_execs_reached:
  assumes "\<not> clip_invalid req" "fetch_result env = FetchResponse True True" "pipe_result env = PipeFinish"
  shows "execs (trace (clip env req files)) = [clip_command env req]"
  using assms
  by (simp add: handler_defs catch_block_eq cleanup_eq Let_def split: oracle_splits)

lemma clip_valid_trace:
  assumes "\<not> clip_invalid req"
  shows "\<exists>evs. trace (clip env req files) = Fetch (inputUrl req) # evs"
  using assms by (simp add: handler_defs Let_def del: drive.simps)

lemma clip_status_400:
  "final (clip env req files) = Responded (Response n b) \<Longrightarrow> n = 400 \<longleftrightarrow> clip_invalid req"
  by (simp add: handler_defs catch_block_eq cleanup_eq Let_def split: oracle_splits if_splits)

lemma audio_status_400:
  "final (extract_audio env req files) = Responded (Response n b) \<Longrightarrow> n = 400 \<longleftrightarrow> audio_invalid req"
  by (simp add: handler_defs catch_block_eq cleanup_eq Let_def split: oracle_splits if_splits)

subsection \<open>The sample runs\<close>

lemma clip_ok_run:
  "clip env_ok clip_request {} =
     \<lparr>final = Responded (Response 200 (ClippedUrl ''https://storage.example/processed-videos/clip.mp4'')),
      trace =
        [Fetch (JStr ''https://example.com/v.mp4''),
         CreateWriteStream ''/app/temp/input_1000.mp4'',
         Exec (clip_command env_ok clip_request),
         StatSync ''/app/temp/output_1000.mp4'',
         CreateReadStream ''/app/temp/output_1000.mp4'',
         Upload \<lparr>bucket = ''processed-videos'', key = JStr ''clip.mp4'',
                 source = ''/app/temp/output_1000.mp4'', contentType = ''video/mp4'',
                 upsert = True, duplex = ''half''\<rparr>,
         GetPublicUrl ''processed-videos'' (JStr ''clip.mp4''),
         UnlinkSync ''/app/temp/input_1000.mp4'',
         UnlinkSync ''/app/temp/output_1000.mp4''],
      history =
        [{}, {}, {''/app/temp/input_1000.mp4''},
         {''/app/temp/input_1000.mp4'', ''/app/temp/output_1000.mp4''}, {}]\<rparr>"
  by (simp add: handler_defs clip_invalid_def env_ok_def clip_request_def clip_tempInput_def
        clip_tempOutput_def path_join_def decimal_1000 cleanup_eq unlinks_def written_def
        clip_upload_def insert_commute)

lemma audio_ok_run:
  "extract_audio env_ok audio_request {} =
     \<lparr>final = Responded (Response 200
                (AudioUrl ''https://storage.example/processed-videos/talk_audio.wav'')),
      trace =
        [Fetch (JStr ''https://example.com/v.mp4''),
         CreateWriteStream ''/app/temp/audio_input_1000.mp4'',
         Exec (audio_command env_ok),
         StatSync ''/app/temp/audio_output_1000.wav'',
         CreateReadStream ''/app/temp/audio_output_1000.wav'',
         Upload \<lparr>bucket = ''processed-videos'', key = JStr ''talk_audio.wav'',
                 source = ''/app/temp/audio_output_1000.wav'', contentType = ''audio/wav'',
                 upsert = True, duplex = ''half''\<rparr>,
         GetPublicUrl ''processed-videos'' (JStr ''talk_audio.wav''),
         UnlinkSync ''/app/temp/audio_input_1000.mp4'',
         UnlinkSync ''/app/temp/audio_output_1000.wav''],
      history =
        [{}, {}, {''/app/temp/audio_input_1000.mp4''},
         {''/app/temp/audio_input_1000.mp4'', ''/app/temp/audio_output_1000.wav''}, {}]\<rparr>"
  by (simp add: handler_defs audio_invalid_def env_ok_def audio_request_def audio_tempInput_def
        audio_tempOutput_def path_join_def decimal_1000 cleanup_eq unlinks_def written_def
        audio_upload_def storageFileName_def insert_commute)

lemma sample_valid: "\<not> clip_invalid clip_request" "\<not> audio_invalid audio_request"
  by (simp_all add: clip_invalid_def audio_invalid_def clip_request_def audio_request_def)

lemma clip_later_run:
  "final (clip (env_ok\<lparr>now_input := 2000, now_output := 2000\<rparr>) clip_request {}) =
     Responded (Response 200 (ClippedUrl ''https://storage.example/processed-videos/clip.mp4''))"
  by (simp add: handler_defs clip_invalid_def env_ok_def clip_request_def cleanup_eq written_def)

lemma clip_null_start_run:
  "final (clip env_ok (clip_request\<lparr>startTime := JNull\<rparr>) {}) =
     Responded (Response 200 (ClippedUrl ''https://storage.example/processed-videos/clip.mp4''))"
  by (simp add: handler_defs clip_invalid_def env_ok_def clip_request_def cleanup_eq written_def)

lemma audio_unnamed_run:
  "final (extract_audio env_ok (audio_request\<lparr>fileName := JStr []\<rparr>) {}) =
     Responded (Response 200 (AudioUrl ''https://storage.example/processed-videos/audio_1000.wav''))"
  "uploads (trace (extract_audio env_ok (audio_request\<lparr>fileName := JStr []\<rparr>) {})) =
     [\<lparr>bucket = ''processed-videos'', key = JStr ''audio_1000.wav'',
       source = ''/app/temp/audio_output_1000.wav'', contentType = ''audio/wav'', upsert = True, duplex = ''half''\<rparr>]"
  by (simp_all add: handler_defs audio_invalid_def env_ok_def audio_request_def audio_tempInput_def
        audio_tempOutput_def path_join_def decimal_1000 cleanup_eq unlinks_def written_def
        audio_upload_def storageFileName_def)

section \<open>The claims\<close>

text \<open>
  C1. For every \<^verbatim>\<open>/clip\<close> or \<^verbatim>\<open>/extract-audio\<close> request that passes validation, at every
  point of the run the files on disk beyond those that were there before are among the two
  scratch files of the invocation (so at most two), and when the response is sent, on
  whichever path (success, fetch failure, transcode failure, upload failure), neither
  scratch file exists. A response is sent on every path on which the awaited promises
  settle.
\<close>

theorem scratch_files_removed_before_response:
  "(\<not> clip_invalid req \<longrightarrow>
      (\<forall>files \<in> set (history (clip env req files0)).
          files - files0 \<subseteq> {clip_tempInput env, clip_tempOutput env} \<and> card (files - files0) \<le> 2) \<and>
      (\<forall>r. final (clip env req files0) = Responded r \<longrightarrow>
          clip_tempInput env \<notin> last (history (clip env req files0)) \<and>
          clip_tempOutput env \<notin> last (history (clip env req files0))) \<and>
      ((\<exists>r. final (clip env req files0) = Responded r) \<or>
          (\<exists>c. pipe_result env = PipeNeverSettles c))) \<and>
   (\<not> audio_invalid req \<longrightarrow>
      (\<forall>files \<in> set (history (extract_audio env req files0)).
          files - files0 \<subseteq> {audio_tempInput env, audio_tempOutput env} \<and> card (files - files0) \<le> 2) \<and>
      (\<forall>r. final (extract_audio env req files0) = Responded r \<longrightarrow>
          audio_tempInput env \<notin> last (history (extract_audio env req files0)) \<and>
          audio_tempOutput env \<notin> last (history (extract_audio env req files0))) \<and>
      ((\<exists>r. final (extract_audio env req files0) = Responded r) \<or>
          (\<exists>c. pipe_result env = PipeNeverSettles c)))"
proof (intro conjI impI ballI allI)
  fix files assume "files \<in> set (history (clip env req files0))"
  then show "files - files0 \<subseteq> {clip_tempInput env, clip_tempOutput env}"
    by (rule clip_history)
  then show "card (files - files0) \<le> 2" by (rule card_two)
next
  fix files assume "files \<in> set (history (extract_audio env req files0))"
  then show "files - files0 \<subseteq> {audio_tempInput env, audio_tempOutput env}"
    by (rule audio_history)
  then show "card (files - files0) \<le> 2" by (rule card_two)
next
  fix r assume "\<not> clip_invalid req" "final (clip env req files0) = Responded r"
  then show "clip_tempInput env \<notin> last (history (clip env req files0))"
    and "clip_tempOutput env \<notin> last (history (clip env req files0))"
    using clip_clean by blast+
next
  fix r assume "\<not> audio_invalid req" "final (extract_audio env req files0) = Responded r"
  then show "audio_tempInput env \<notin> last (history (extract_audio env req files0))"
    and "audio_tempOutput env \<notin> last (history (extract_audio env req files0))"
    using audio_clean by blast+
next
  show "(\<exists>r. final (clip env req files0) = Responded r) \<or> (\<exists>c. pipe_result env = PipeNeverSettles c)"
    using clip_completes [of env req files0] by blast
  show "(\<exists>r. final (extract_audio env req files0) = Responded r) \<or>
        (\<exists>c. pipe_result env = PipeNeverSettles c)"
    using audio_completes [of env req files0] by blast
qed

theorem scratch_files_removed_before_response_witness:
  "\<not> clip_invalid clip_request \<and> \<not> audio_invalid audio_request \<and>
   final (clip env_ok clip_request {}) =
     Responded (Response 200 (ClippedUrl ''https://storage.example/processed-videos/clip.mp4'')) \<and>
   clip_tempInput env_ok \<notin> last (history (clip env_ok clip_request {})) \<and>
   clip_tempOutput env_ok \<notin> last (history (clip env_ok clip_request {})) \<and>
   card (last (history (clip env_ok clip_request {})) - {}) \<le> 2 \<and>
   final (extract_audio env_ok audio_request {}) =
     Responded (Response 200 (AudioUrl ''https://storage.example/processed-videos/talk_audio.wav'')) \<and>
   audio_tempInput env_ok \<notin> last (history (extract_audio env_ok audio_request {})) \<and>
   audio_tempOutput env_ok \<notin> last (history (extract_audio env_ok audio_request {})) \<and>
   card (last (history (extract_audio env_ok audio_request {})) - {}) \<le> 2"
  using scratch_files_removed_before_response [of clip_request env_ok "{}"]
    scratch_files_removed_before_response [of audio_request env_ok "{}"]
    sample_valid clip_ok_run audio_ok_run
  by simp

text \<open>
  C2, evaluated where it fails. Two invocations that read the same value of
  \<^verbatim>\<open>Date.now()\<close> have the same scratch paths, on either endpoint. Here a first \<^verbatim>\<open>/clip\<close>
  invocation has downloaded its input and awaits ffmpeg, with
  \<^verbatim>\<open>/app/temp/input_1000.mp4\<close> on disk; a second one, for another video, starts in the same
  millisecond, its fetch is refused, and its catch block unlinks the first one's input
  file.
\<close>

theorem same_millisecond_requests_share_scratch_files:
  "clip_tempInput (env_ok\<lparr>fetch_result := FetchResponse False True\<rparr>) = clip_tempInput env_ok \<and>
   clip_tempOutput (env_ok\<lparr>fetch_result := FetchResponse False True\<rparr>) = clip_tempOutput env_ok \<and>
   audio_tempInput (env_ok\<lparr>fetch_result := FetchResponse False True\<rparr>) = audio_tempInput env_ok \<and>
   audio_tempOutput (env_ok\<lparr>fetch_result := FetchResponse False True\<rparr>) = audio_tempOutput env_ok \<and>
   clip_tempInput env_ok = ''/app/temp/input_1000.mp4'' \<and>
   clip_start env_ok clip_request {} = (Fetching, [Fetch (JStr ''https://example.com/v.mp4'')], {}) \<and>
   clip_resume env_ok clip_request Fetching {} =
     (Downloading, [CreateWriteStream ''/app/temp/input_1000.mp4''], {}) \<and>
   clip_resume env_ok clip_request Downloading {} =
     (Transcoding, [Exec (clip_command env_ok clip_request)], {''/app/temp/input_1000.mp4''}) \<and>
   clip_start (env_ok\<lparr>fetch_result := FetchResponse False True\<rparr>) other_request
       {''/app/temp/input_1000.mp4''} =
     (Fetching, [Fetch (JStr ''https://example.com/w.mp4'')], {''/app/temp/input_1000.mp4''}) \<and>
   clip_resume (env_ok\<lparr>fetch_result := FetchResponse False True\<rparr>) other_request Fetching
       {''/app/temp/input_1000.mp4''} =
     (Responded (Response 500 (ErrorBody ''Failed to fetch video'' None)),
      [UnlinkSync ''/app/temp/input_1000.mp4''], {})"
  by (simp add: clip_start_def clip_invalid_def env_ok_def clip_request_def other_request_def
        clip_tempInput_def clip_tempOutput_def audio_tempInput_def audio_tempOutput_def
        path_join_def decimal_1000 catch_block_eq unlinks_def)



text \<open>
  C4. On either endpoint, when the fetch of \<^verbatim>\<open>inputUrl\<close> returns a response that is not
  \<^verbatim>\<open>ok\<close>, or one without a body, a valid request is answered with 500 and the message of
  the fetch failure, and neither the transcoder nor the upload is called.
\<close>

theorem fetch_failure_is_500:
  assumes "fetch_result env = FetchResponse ok has_body" and "\<not> ok \<or> \<not> has_body"
  shows "(\<not> clip_invalid req \<longrightarrow>
            final (clip env req files) =
              Responded (Response 500
                (ErrorBody (if ok then ''No response body'' else ''Failed to fetch video'') None)) \<and>
            execs (trace (clip env req files)) = [] \<and>
            uploads (trace (clip env req files)) = []) \<and>
         (\<not> audio_invalid req \<longrightarrow>
            final (extract_audio env req files) =
              Responded (Response 500
                (ErrorBody (if ok then ''No response body'' else ''Failed to fetch video'') None)) \<and>
            execs (trace (extract_audio env req files)) = [] \<and>
            uploads (trace (extract_audio env req files)) = [])"
  using assms by (auto simp: handler_defs catch_block_eq)

theorem fetch_failure_is_500_witness:
  "fetch_result (env_ok\<lparr>fetch_result := FetchResponse False True\<rparr>) = FetchResponse False True \<and>
   \<not> clip_invalid clip_request \<and> \<not> audio_invalid audio_request \<and>
   final (clip (env_ok\<lparr>fetch_result := FetchResponse False True\<rparr>) clip_request {}) =
     Responded (Response 500 (ErrorBody ''Failed to fetch video'' None)) \<and>
   execs (trace (clip (env_ok\<lparr>fetch_result := FetchResponse False True\<rparr>) clip_request {})) = [] \<and>
   uploads (trace (clip (env_ok\<lparr>fetch_result := FetchResponse False True\<rparr>) clip_request {})) = [] \<and>
   final (extract_audio (env_ok\<lparr>fetch_result := FetchResponse True False\<rparr>) audio_request {}) =
     Responded (Response 500 (ErrorBody ''No response body'' None)) \<and>
   execs (trace (extract_audio (env_ok\<lparr>fetch_result := FetchResponse True False\<rparr>) audio_request {})) = [] \<and>
   uploads (trace (extract_audio (env_ok\<lparr>fetch_result := FetchResponse True False\<rparr>) audio_request {})) = []"
  using fetch_failure_is_500 [of "env_ok\<lparr>fetch_result := FetchResponse False True\<rparr>" False True
      clip_request "{}"]
    fetch_failure_is_500 [of "env_ok\<lparr>fetch_result := FetchResponse True False\<rparr>" True False
      audio_request "{}"]
    sample_valid
  by simp

text \<open>
  C5. On either endpoint, when the transcoder command fails (it exits non-zero, or the
  shell does not find it), a valid request whose download finished is answered with 500
  and a body holding the error's message and the captured stderr, and no upload is
  attempted.
\<close>

theorem transcode_failure_is_500:
  assumes "fetch_result env = FetchResponse True True" and "pipe_result env = PipeFinish"
    and "exec_result env = ExecFails msg err wrote"
  shows "(\<not> clip_invalid req \<longrightarrow>
            final (clip env req files) = Responded (Response 500 (ErrorBody msg (Some err))) \<and>
            execs (trace (clip env req files)) = [clip_command env req] \<and>
            uploads (trace (clip env req files)) = []) \<and>
         (\<not> audio_invalid req \<longrightarrow>
            final (extract_audio env req files) =
              Responded (Response 500 (ErrorBody msg (Some err))) \<and>
            execs (trace (extract_audio env req files)) = [audio_command env] \<and>
            uploads (trace (extract_audio env req files)) = [])"
  using assms by (auto simp: handler_defs catch_block_eq)

theorem transcode_failure_is_500_witness:
  "fetch_result (env_ok\<lparr>exec_result := ExecFails ''Command failed'' ''ffmpeg: not found'' False\<rparr>)
     = FetchResponse True True \<and>
   pipe_result (env_ok\<lparr>exec_result := ExecFails ''Command failed'' ''ffmpeg: not found'' False\<rparr>)
     = PipeFinish \<and>
   \<not> clip_invalid clip_request \<and> \<not> audio_invalid audio_request \<and>
   final (clip (env_ok\<lparr>exec_result := ExecFails ''Command failed'' ''ffmpeg: not found'' False\<rparr>)
            clip_request {}) =
     Responded (Response 500 (ErrorBody ''Command failed'' (Some ''ffmpeg: not found''))) \<and>
   uploads (trace (clip (env_ok\<lparr>exec_result := ExecFails ''Command failed'' ''ffmpeg: not found'' False\<rparr>)
            clip_request {})) = [] \<and>
   final (extract_audio (env_ok\<lparr>exec_result := ExecFails ''Command failed'' ''ffmpeg: not found'' False\<rparr>)
            audio_request {}) =
     Responded (Response 500 (ErrorBody ''Command failed'' (Some ''ffmpeg: not found''))) \<and>
   uploads (trace (extract_audio (env_ok\<lparr>exec_result := ExecFails ''Command failed'' ''ffmpeg: not found'' False\<rparr>)
            audio_request {})) = []"
  using transcode_failure_is_500
      [of "env_ok\<lparr>exec_result := ExecFails ''Command failed'' ''ffmpeg: not found'' False\<rparr>"
        "''Command failed''" "''ffmpeg: not found''" False]
    sample_valid
  by (simp add: env_ok_def)

text \<open>
  C6, as the code has it. A successful \<^verbatim>\<open>/extract-audio\<close> request uploads once, with
  content type \<^verbatim>\<open>audio/wav\<close>, under the key \<^verbatim>\<open>storageFileName\<close>, resolves the public URL
  of that same key and answers 200 with it as \<^verbatim>\<open>audioUrl\<close>. The key is
  \<^verbatim>\<open>${fileName}_audio.wav\<close> when \<^verbatim>\<open>fileName\<close> is truthy, and \<^verbatim>\<open>audio_${Date.now()}.wav\<close>
  otherwise; two generated keys differ whenever the two clock readings differ.
\<close>

theorem audio_storage_key:
  "(\<forall>b. final (extract_audio env req files) = Responded (Response 200 b) \<longrightarrow>
      uploads (trace (extract_audio env req files)) =
        [\<lparr>bucket = ''processed-videos'', key = JStr (storageFileName env req),
          source = audio_tempOutput env, contentType = ''audio/wav'', upsert = True, duplex = ''half''\<rparr>] \<and>
      GetPublicUrl ''processed-videos'' (JStr (storageFileName env req))
        \<in> set (trace (extract_audio env req files)) \<and>
      b = AudioUrl (publicUrl env ''processed-videos'' (JStr (storageFileName env req)))) \<and>
   (truthy (fileName req) \<longrightarrow>
      storageFileName env req = to_string (fileName req) @ ''_audio.wav'') \<and>
   (\<forall>x. fileName req = JStr x \<and> x \<noteq> [] \<longrightarrow> storageFileName env req = x @ ''_audio.wav'') \<and>
   (\<not> truthy (fileName req) \<longrightarrow>
      storageFileName env req = ''audio_'' @ decimal (now_key env) @ ''.wav'' \<and>
      (\<forall>(env'::env) (req'::request). \<not> truthy (fileName req') \<and> now_key env' \<noteq> now_key env \<longrightarrow>
         storageFileName env' req' \<noteq> storageFileName env req))"
proof (intro conjI allI impI)
  fix b assume "final (extract_audio env req files) = Responded (Response 200 b)"
  from audio_success [OF this]
  show "uploads (trace (extract_audio env req files)) =
        [\<lparr>bucket = ''processed-videos'', key = JStr (storageFileName env req),
          source = audio_tempOutput env, contentType = ''audio/wav'', upsert = True, duplex = ''half''\<rparr>]"
    and "GetPublicUrl ''processed-videos'' (JStr (storageFileName env req))
        \<in> set (trace (extract_audio env req files))"
    and "b = AudioUrl (publicUrl env ''processed-videos'' (JStr (storageFileName env req)))"
    by (simp_all add: audio_upload_def)
next
  assume "truthy (fileName req)"
  then show "storageFileName env req = to_string (fileName req) @ ''_audio.wav''"
    by (simp add: storageFileName_def)
next
  fix x assume "fileName req = JStr x \<and> x \<noteq> []"
  then show "storageFileName env req = x @ ''_audio.wav''"
    by (simp add: storageFileName_def)
next
  assume f: "\<not> truthy (fileName req)"
  then show "storageFileName env req = ''audio_'' @ decimal (now_key env) @ ''.wav''"
    by (simp add: storageFileName_def)
  fix env' :: env and req' :: request assume "\<not> truthy (fileName req') \<and> now_key env' \<noteq> now_key env"
  with f show "storageFileName env' req' \<noteq> storageFileName env req"
    using generated_key_inj [of "now_key env'" "now_key env"]
    by (auto simp: storageFileName_def)
qed

text \<open>
  The claim as it was stated fails twice. A request whose \<^verbatim>\<open>fileName\<close> is the empty string
  succeeds with the generated key \<^verbatim>\<open>audio_1000.wav\<close>, not with \<^verbatim>\<open>_audio.wav\<close>; and two
  different requests without a \<^verbatim>\<open>fileName\<close> that read the same clock value get the same
  generated key.
\<close>

theorem audio_storage_key_counterexample:
  "final (extract_audio env_ok (audio_request\<lparr>fileName := JStr []\<rparr>) {}) =
     Responded (Response 200 (AudioUrl ''https://storage.example/processed-videos/audio_1000.wav'')) \<and>
   map key (uploads (trace (extract_audio env_ok (audio_request\<lparr>fileName := JStr []\<rparr>) {}))) =
     [JStr ''audio_1000.wav''] \<and>
   JStr ''audio_1000.wav'' \<noteq>
     JStr (to_string (fileName (audio_request\<lparr>fileName := JStr []\<rparr>)) @ ''_audio.wav'') \<and>
   storageFileName env_ok (audio_request\<lparr>fileName := JUndefined\<rparr>) = ''audio_1000.wav'' \<and>
   storageFileName (env_ok\<lparr>now_input := 999, fetch_result := FetchResponse False True\<rparr>)
       (other_request\<lparr>fileName := JUndefined\<rparr>) = ''audio_1000.wav''"
proof -
  have "storageFileName env_ok (audio_request\<lparr>fileName := JUndefined\<rparr>) = ''audio_1000.wav''"
    and "storageFileName (env_ok\<lparr>now_input := 999, fetch_result := FetchResponse False True\<rparr>)
       (other_request\<lparr>fileName := JUndefined\<rparr>) = ''audio_1000.wav''"
    by (simp_all add: storageFileName_def env_ok_def decimal_1000)
  then show ?thesis by (simp add: audio_unnamed_run)
qed

theorem audio_storage_key_witness:
  "final (extract_audio env_ok audio_request {}) =
     Responded (Response 200 (AudioUrl ''https://storage.example/processed-videos/talk_audio.wav'')) \<and>
   fileName audio_request = JStr ''talk'' \<and> truthy (fileName audio_request) \<and>
   storageFileName env_ok audio_request = ''talk_audio.wav'' \<and>
   map contentType (uploads (trace (extract_audio env_ok audio_request {}))) = [''audio/wav''] \<and>
   map key (uploads (trace (extract_audio env_ok audio_request {}))) = [JStr ''talk_audio.wav''] \<and>
   \<not> truthy (fileName (audio_request\<lparr>fileName := JUndefined\<rparr>)) \<and>
   now_key (env_ok\<lparr>now_key := 1001\<rparr>) \<noteq> now_key env_ok \<and>
   storageFileName (env_ok\<lparr>now_key := 1001\<rparr>) (audio_request\<lparr>fileName := JUndefined\<rparr>) \<noteq>
     storageFileName env_ok (audio_request\<lparr>fileName := JUndefined\<rparr>)"
proof -
  let ?u = "audio_request\<lparr>fileName := JUndefined\<rparr>"
  note t = audio_storage_key [of env_ok audio_request "{}"]
  note n = audio_storage_key [of env_ok ?u "{}"]
  have r: "final (extract_audio env_ok audio_request {}) =
     Responded (Response 200 (AudioUrl ''https://storage.example/processed-videos/talk_audio.wav''))"
    by (simp add: audio_ok_run)
  have h: "fileName audio_request = JStr ''talk''" "truthy (fileName audio_request)"
    "''talk'' \<noteq> []" "\<not> truthy (fileName ?u)" "now_key (env_ok\<lparr>now_key := 1001\<rparr>) \<noteq> now_key env_ok"
    by (simp_all add: audio_request_def env_ok_def)
  from t h(1,3) have k: "storageFileName env_ok audio_request = ''talk'' @ ''_audio.wav''"
    by blast
  from t r have "uploads (trace (extract_audio env_ok audio_request {})) =
        [\<lparr>bucket = ''processed-videos'', key = JStr (storageFileName env_ok audio_request),
          source = audio_tempOutput env_ok, contentType = ''audio/wav'', upsert = True, duplex = ''half''\<rparr>]"
    by blast
  with k have u: "map contentType (uploads (trace (extract_audio env_ok audio_request {}))) = [''audio/wav'']"
    "map key (uploads (trace (extract_audio env_ok audio_request {}))) = [JStr ''talk_audio.wav'']"
    by simp_all
  from n h(4,5) have d: "storageFileName (env_ok\<lparr>now_key := 1001\<rparr>) ?u \<noteq> storageFileName env_ok ?u"
    by blast
  from r h k u d show ?thesis by simp
qed

text \<open>
  C7. Every upload the \<^verbatim>\<open>/clip\<close> handler makes targets the bucket
  \<^verbatim>\<open>processed-videos\<close> with the request's \<^verbatim>\<open>fileName\<close> as key, content type
  \<^verbatim>\<open>video/mp4\<close> and \<^verbatim>\<open>upsert\<close> set; a successful request makes exactly one such upload
  and answers with the public URL of that key. Hence a repetition of a successful request
  against the same storage service uploads under the same bucket and key, with overwrite
  enabled, and returns the same URL.
\<close>

theorem clip_upload_overwrites_same_key:
  "(\<forall>u \<in> set (uploads (trace (clip env req files))).
      u = \<lparr>bucket = ''processed-videos'', key = fileName req, source = clip_tempOutput env,
           contentType = ''video/mp4'', upsert = True, duplex = ''half''\<rparr>) \<and>
   (\<forall>b. final (clip env req files) = Responded (Response 200 b) \<longrightarrow>
      uploads (trace (clip env req files)) =
        [\<lparr>bucket = ''processed-videos'', key = fileName req, source = clip_tempOutput env,
          contentType = ''video/mp4'', upsert = True, duplex = ''half''\<rparr>] \<and>
      b = ClippedUrl (publicUrl env ''processed-videos'' (fileName req))) \<and>
   (\<forall>env' files' b b'.
      publicUrl env' = publicUrl env \<and>
      final (clip env req files) = Responded (Response 200 b) \<and>
      final (clip env' req files') = Responded (Response 200 b') \<longrightarrow>
      b' = b \<and>
      map key (uploads (trace (clip env' req files'))) = map key (uploads (trace (clip env req files))) \<and>
      map bucket (uploads (trace (clip env' req files'))) = map bucket (uploads (trace (clip env req files))))"
proof (intro conjI allI impI ballI)
  fix u assume "u \<in> set (uploads (trace (clip env req files)))"
  with clip_uploads [of env req files]
  show "u = \<lparr>bucket = ''processed-videos'', key = fileName req, source = clip_tempOutput env,
             contentType = ''video/mp4'', upsert = True, duplex = ''half''\<rparr>"
    by (auto simp: clip_upload_def)
next
  fix b assume "final (clip env req files) = Responded (Response 200 b)"
  from clip_success [OF this]
  show "uploads (trace (clip env req files)) =
        [\<lparr>bucket = ''processed-videos'', key = fileName req, source = clip_tempOutput env,
          contentType = ''video/mp4'', upsert = True, duplex = ''half''\<rparr>]"
    and "b = ClippedUrl (publicUrl env ''processed-videos'' (fileName req))"
    by (simp_all add: clip_upload_def)
next
  fix env' files' b b'
  assume a: "publicUrl env' = publicUrl env \<and>
      final (clip env req files) = Responded (Response 200 b) \<and>
      final (clip env' req files') = Responded (Response 200 b')"
  then have 1: "final (clip env req files) = Responded (Response 200 b)"
    and 2: "final (clip env' req files') = Responded (Response 200 b')"
    and p: "publicUrl env' = publicUrl env"
    by simp_all
  from clip_success [OF 1] clip_success [OF 2] p
  show "b' = b"
    and "map key (uploads (trace (clip env' req files'))) = map key (uploads (trace (clip env req files)))"
    and "map bucket (uploads (trace (clip env' req files'))) = map bucket (uploads (trace (clip env req files)))"
    by (simp_all add: clip_upload_def)
qed

theorem clip_upload_overwrites_same_key_witness:
  "publicUrl (env_ok\<lparr>now_input := 2000, now_output := 2000\<rparr>) = publicUrl env_ok \<and>
   final (clip env_ok clip_request {}) =
     Responded (Response 200 (ClippedUrl ''https://storage.example/processed-videos/clip.mp4'')) \<and>
   final (clip (env_ok\<lparr>now_input := 2000, now_output := 2000\<rparr>) clip_request {}) =
     Responded (Response 200 (ClippedUrl ''https://storage.example/processed-videos/clip.mp4'')) \<and>
   uploads (trace (clip env_ok clip_request {})) =
     [\<lparr>bucket = ''processed-videos'', key = JStr ''clip.mp4'', source = ''/app/temp/output_1000.mp4'',
       contentType = ''video/mp4'', upsert = True, duplex = ''half''\<rparr>] \<and>
   map key (uploads (trace (clip (env_ok\<lparr>now_input := 2000, now_output := 2000\<rparr>) clip_request {})))
     = map key (uploads (trace (clip env_ok clip_request {})))"
proof -
  let ?e = "env_ok\<lparr>now_input := 2000, now_output := 2000\<rparr>"
  note t = clip_upload_overwrites_same_key [of env_ok clip_request "{}"]
  have p: "publicUrl ?e = publicUrl env_ok" by simp
  have 1: "final (clip env_ok clip_request {}) =
     Responded (Response 200 (ClippedUrl ''https://storage.example/processed-videos/clip.mp4''))"
    by (simp add: clip_ok_run)
  note 2 = clip_later_run
  have u: "uploads (trace (clip env_ok clip_request {})) =
     [\<lparr>bucket = ''processed-videos'', key = JStr ''clip.mp4'', source = ''/app/temp/output_1000.mp4'',
       contentType = ''video/mp4'', upsert = True, duplex = ''half''\<rparr>]"
    by (simp add: clip_ok_run)
  from t p 1 2 have "map key (uploads (trace (clip ?e clip_request {})))
     = map key (uploads (trace (clip env_ok clip_request {})))"
    by blast
  with p 1 2 u show ?thesis by blast
qed

text \<open>
  C9. The \<^verbatim>\<open>/clip\<close> validation tests \<^verbatim>\<open>startTime\<close> and \<^verbatim>\<open>endTime\<close> against
  \<^verbatim>\<open>undefined\<close> only, and \<^verbatim>\<open>inputUrl\<close> and \<^verbatim>\<open>fileName\<close> for falsiness: a request with
  \<^verbatim>\<open>startTime\<close> 0 or \<^verbatim>\<open>null\<close> (and the other fields in order) passes validation and
  goes on to the fetch, while a request whose \<^verbatim>\<open>fileName\<close> or \<^verbatim>\<open>inputUrl\<close> is the empty
  string gets the same 400 as one in which the field is absent; so does an
  \<^verbatim>\<open>/extract-audio\<close> request with an empty \<^verbatim>\<open>inputUrl\<close>.
\<close>

theorem validation_presence_versus_falsiness:
  "(truthy (inputUrl req) \<and> truthy (fileName req) \<and> endTime req \<noteq> JUndefined \<and>
    (startTime req = JNum NumZero \<or> startTime req = JNull) \<longrightarrow>
      (\<exists>evs. trace (clip env req files) = Fetch (inputUrl req) # evs) \<and>
      (\<forall>n b. final (clip env req files) = Responded (Response n b) \<longrightarrow> n \<noteq> 400)) \<and>
   (inputUrl req = JStr [] \<or> fileName req = JStr [] \<longrightarrow>
      clip env req files =
        \<lparr>final = Responded (Response 400 (ErrorBody
                   ''Missing required parameters: inputUrl, startTime, endTime, fileName'' None)),
         trace = [], history = [files]\<rparr>) \<and>
   (inputUrl req = JStr [] \<longrightarrow>
      clip env req files = clip env (req\<lparr>inputUrl := JUndefined\<rparr>) files \<and>
      extract_audio env req files = extract_audio env (req\<lparr>inputUrl := JUndefined\<rparr>) files \<and>
      extract_audio env req files =
        \<lparr>final = Responded (Response 400 (ErrorBody ''Missing required parameter: inputUrl'' None)),
         trace = [], history = [files]\<rparr>) \<and>
   (fileName req = JStr [] \<longrightarrow>
      clip env req files = clip env (req\<lparr>fileName := JUndefined\<rparr>) files) \<and>
   (\<forall>n b. final (clip env req files) = Responded (Response n b) \<longrightarrow>
      (n = 400 \<longleftrightarrow>
         \<not> truthy (inputUrl req) \<or> startTime req = JUndefined \<or> endTime req = JUndefined \<or>
         \<not> truthy (fileName req)))"
proof (intro conjI impI allI)
  assume a: "truthy (inputUrl req) \<and> truthy (fileName req) \<and> endTime req \<noteq> JUndefined \<and>
    (startTime req = JNum NumZero \<or> startTime req = JNull)"
  then have v: "\<not> clip_invalid req" by (auto simp: clip_invalid_def)
  then show "\<exists>evs. trace (clip env req files) = Fetch (inputUrl req) # evs"
    by (rule clip_valid_trace)
  fix n b assume "final (clip env req files) = Responded (Response n b)"
  with v show "n \<noteq> 400" using clip_status_400 by blast
next
  assume "inputUrl req = JStr [] \<or> fileName req = JStr []"
  then show "clip env req files =
        \<lparr>final = Responded (Response 400 (ErrorBody
                   ''Missing required parameters: inputUrl, startTime, endTime, fileName'' None)),
         trace = [], history = [files]\<rparr>"
    by (auto simp: handler_defs clip_invalid_def)
next
  assume a: "inputUrl req = JStr []"
  then show "clip env req files = clip env (req\<lparr>inputUrl := JUndefined\<rparr>) files"
    by (simp add: handler_defs clip_invalid_def)
  from a show "extract_audio env req files = extract_audio env (req\<lparr>inputUrl := JUndefined\<rparr>) files"
    by (simp add: handler_defs audio_invalid_def)
  from a show "extract_audio env req files =
        \<lparr>final = Responded (Response 400 (ErrorBody ''Missing required parameter: inputUrl'' None)),
         trace = [], history = [files]\<rparr>"
    by (simp add: handler_defs audio_invalid_def)
next
  assume "fileName req = JStr []"
  then show "clip env req files = clip env (req\<lparr>fileName := JUndefined\<rparr>) files"
    by (simp add: handler_defs clip_invalid_def)
next
  fix n b assume "final (clip env req files) = Responded (Response n b)"
  from clip_status_400 [OF this]
  show "n = 400 \<longleftrightarrow>
         \<not> truthy (inputUrl req) \<or> startTime req = JUndefined \<or> endTime req = JUndefined \<or>
         \<not> truthy (fileName req)"
    by (simp add: clip_invalid_def)
qed

theorem validation_presence_versus_falsiness_witness:
  "truthy (inputUrl clip_request) \<and> truthy (fileName clip_request) \<and>
   endTime clip_request \<noteq> JUndefined \<and> startTime clip_request = JNum NumZero \<and>
   final (clip env_ok clip_request {}) =
     Responded (Response 200 (ClippedUrl ''https://storage.example/processed-videos/clip.mp4'')) \<and>
   startTime (clip_request\<lparr>startTime := JNull\<rparr>) = JNull \<and>
   final (clip env_ok (clip_request\<lparr>startTime := JNull\<rparr>) {}) =
     Responded (Response 200 (ClippedUrl ''https://storage.example/processed-videos/clip.mp4'')) \<and>
   fileName (clip_request\<lparr>fileName := JStr []\<rparr>) = JStr [] \<and>
   clip env_ok (clip_request\<lparr>fileName := JStr []\<rparr>) {} =
     \<lparr>final = Responded (Response 400 (ErrorBody
                ''Missing required parameters: inputUrl, startTime, endTime, fileName'' None)),
      trace = [], history = [{}]\<rparr> \<and>
   inputUrl (clip_request\<lparr>inputUrl := JStr []\<rparr>) = JStr [] \<and>
   clip env_ok (clip_request\<lparr>inputUrl := JStr []\<rparr>) {} =
     \<lparr>final = Responded (Response 400 (ErrorBody
                ''Missing required parameters: inputUrl, startTime, endTime, fileName'' None)),
      trace = [], history = [{}]\<rparr> \<and>
   extract_audio env_ok (clip_request\<lparr>inputUrl := JStr []\<rparr>) {} =
     \<lparr>final = Responded (Response 400 (ErrorBody ''Missing required parameter: inputUrl'' None)),
      trace = [], history = [{}]\<rparr>"
proof -
  let ?f = "clip_request\<lparr>fileName := JStr []\<rparr>"
  let ?i = "clip_request\<lparr>inputUrl := JStr []\<rparr>"
  have h: "truthy (inputUrl clip_request)" "truthy (fileName clip_request)"
    "endTime clip_request \<noteq> JUndefined" "startTime clip_request = JNum NumZero"
    "startTime (clip_request\<lparr>startTime := JNull\<rparr>) = JNull"
    "fileName ?f = JStr []" "inputUrl ?i = JStr []"
    by (simp_all add: clip_request_def)
  have r: "final (clip env_ok clip_request {}) =
     Responded (Response 200 (ClippedUrl ''https://storage.example/processed-videos/clip.mp4''))"
    by (simp add: clip_ok_run)
  from validation_presence_versus_falsiness [of ?f env_ok "{}"] h(6)
  have f: "clip env_ok ?f {} =
     \<lparr>final = Responded (Response 400 (ErrorBody
                ''Missing required parameters: inputUrl, startTime, endTime, fileName'' None)),
      trace = [], history = [{}]\<rparr>"
    by blast
  from validation_presence_versus_falsiness [of ?i env_ok "{}"] h(7)
  have i: "clip env_ok ?i {} =
     \<lparr>final = Responded (Response 400 (ErrorBody
                ''Missing required parameters: inputUrl, startTime, endTime, fileName'' None)),
      trace = [], history = [{}]\<rparr>"
    and a: "extract_audio env_ok ?i {} =
     \<lparr>final = Responded (Response 400 (ErrorBody ''Missing required parameter: inputUrl'' None)),
      trace = [], history = [{}]\<rparr>"
    by blast+
  from h r clip_null_start_run f i a show ?thesis by blast
qed

text \<open>
  C10. The command line of \<^verbatim>\<open>/clip\<close> is the template with what the template literal
  inserts for \<^verbatim>\<open>startTime\<close> and \<^verbatim>\<open>endTime\<close> put in as it is, without quotes, escapes
  or a check that it is a number: every command the handler hands to the subprocess
  executor is that string, and the handler does hand it over once the download has
  finished. When the two times are strings they appear in it verbatim; when they are
  numbers they appear as Number::toString prints them.
\<close>

theorem clip_command_interpolates_times:
  \<open>(\<forall>c \<in> set (execs (trace (clip env req files))).
      c = ''ffmpeg -ss '' @ to_string (startTime req) @ '' -to '' @ to_string (endTime req)
          @ '' -i "'' @ clip_tempInput env
          @ ''" -vf "scale=1080:1920:force_original_aspect_ratio=decrease,pad=1080:1920:(ow-iw)/2:(oh-ih)/2" -c:v libx264 -c:a aac -preset ultrafast -crf 30 -threads 1 -y "''
          @ clip_tempOutput env @ ''"'') \<and>
   (\<not> clip_invalid req \<and> fetch_result env = FetchResponse True True \<and> pipe_result env = PipeFinish \<longrightarrow>
      execs (trace (clip env req files)) = [clip_command env req]) \<and>
   (\<forall>s t. startTime req = JStr s \<and> endTime req = JStr t \<longrightarrow>
      clip_command env req =
        ''ffmpeg -ss '' @ s @ '' -to '' @ t
          @ '' -i "'' @ clip_tempInput env
          @ ''" -vf "scale=1080:1920:force_original_aspect_ratio=decrease,pad=1080:1920:(ow-iw)/2:(oh-ih)/2" -c:v libx264 -c:a aac -preset ultrafast -crf 30 -threads 1 -y "''
          @ clip_tempOutput env @ ''"'') \<and>
   (\<forall>x y. startTime req = JNum x \<and> endTime req = JNum y \<longrightarrow>
      clip_command env req =
        ''ffmpeg -ss '' @ number_string x @ '' -to '' @ number_string y
          @ '' -i "'' @ clip_tempInput env
          @ ''" -vf "scale=1080:1920:force_original_aspect_ratio=decrease,pad=1080:1920:(ow-iw)/2:(oh-ih)/2" -c:v libx264 -c:a aac -preset ultrafast -crf 30 -threads 1 -y "''
          @ clip_tempOutput env @ ''"'')\<close>
proof (intro conjI ballI allI impI)
  fix c assume "c \<in> set (execs (trace (clip env req files)))"
  with clip_execs [of env req files] have "c = clip_command env req" by auto
  then show \<open>c = ''ffmpeg -ss '' @ to_string (startTime req) @ '' -to '' @ to_string (endTime req)
          @ '' -i "'' @ clip_tempInput env
          @ ''" -vf "scale=1080:1920:force_original_aspect_ratio=decrease,pad=1080:1920:(ow-iw)/2:(oh-ih)/2" -c:v libx264 -c:a aac -preset ultrafast -crf 30 -threads 1 -y "''
          @ clip_tempOutput env @ ''"''\<close>
    by (simp add: clip_command_def filterComplex_def)
next
  assume "\<not> clip_invalid req \<and> fetch_result env = FetchResponse True True \<and> pipe_result env = PipeFinish"
  then show "execs (trace (clip env req files)) = [clip_command env req]"
    using clip_execs_reached by blast
next
  fix s t assume "startTime req = JStr s \<and> endTime req = JStr t"
  then show \<open>clip_command env req =
        ''ffmpeg -ss '' @ s @ '' -to '' @ t
          @ '' -i "'' @ clip_tempInput env
          @ ''" -vf "scale=1080:1920:force_original_aspect_ratio=decrease,pad=1080:1920:(ow-iw)/2:(oh-ih)/2" -c:v libx264 -c:a aac -preset ultrafast -crf 30 -threads 1 -y "''
          @ clip_tempOutput env @ ''"''\<close>
    by (simp add: clip_command_def filterComplex_def)
next
  fix x y assume "startTime req = JNum x \<and> endTime req = JNum y"
  then show \<open>clip_command env req =
        ''ffmpeg -ss '' @ number_string x @ '' -to '' @ number_string y
          @ '' -i "'' @ clip_tempInput env
          @ ''" -vf "scale=1080:1920:force_original_aspect_ratio=decrease,pad=1080:1920:(ow-iw)/2:(oh-ih)/2" -c:v libx264 -c:a aac -preset ultrafast -crf 30 -threads 1 -y "''
          @ clip_tempOutput env @ ''"''\<close>
    by (simp add: clip_command_def filterComplex_def)
qed

theorem clip_command_interpolates_times_witness:
  \<open>\<not> clip_invalid unquoted_request \<and> \<not> clip_invalid fractional_request \<and>
   fetch_result env_ok = FetchResponse True True \<and> pipe_result env_ok = PipeFinish \<and>
   startTime unquoted_request = JStr ''1; echo x'' \<and> endTime unquoted_request = JStr ''9 -an'' \<and>
   execs (trace (clip env_ok unquoted_request {})) =
     [''ffmpeg -ss 1; echo x -to 9 -an -i "/app/temp/input_1000.mp4" -vf "scale=1080:1920:force_original_aspect_ratio=decrease,pad=1080:1920:(ow-iw)/2:(oh-ih)/2" -c:v libx264 -c:a aac -preset ultrafast -crf 30 -threads 1 -y "/app/temp/output_1000.mp4"''] \<and>
   startTime fractional_request = JNum (NumFinite False 15 1) \<and>
   endTime fractional_request = JNum (NumFinite False 1 22) \<and>
   execs (trace (clip env_ok fractional_request {})) =
     [''ffmpeg -ss 1.5 -to 1e+21 -i "/app/temp/input_1000.mp4" -vf "scale=1080:1920:force_original_aspect_ratio=decrease,pad=1080:1920:(ow-iw)/2:(oh-ih)/2" -c:v libx264 -c:a aac -preset ultrafast -crf 30 -threads 1 -y "/app/temp/output_1000.mp4"'']\<close>
proof -
  note t = clip_command_interpolates_times [of env_ok unquoted_request "{}"]
  note u = clip_command_interpolates_times [of env_ok fractional_request "{}"]
  have h: "\<not> clip_invalid unquoted_request" "fetch_result env_ok = FetchResponse True True"
    "pipe_result env_ok = PipeFinish"
    "startTime unquoted_request = JStr ''1; echo x''" "endTime unquoted_request = JStr ''9 -an''"
    by (simp_all add: clip_invalid_def unquoted_request_def env_ok_def)
  have g: "\<not> clip_invalid fractional_request"
    "startTime fractional_request = JNum (NumFinite False 15 1)"
    "endTime fractional_request = JNum (NumFinite False 1 22)"
    by (simp_all add: clip_invalid_def fractional_request_def)
  have p: \<open>clip_tempInput env_ok = ''/app/temp/input_1000.mp4''\<close>
    \<open>clip_tempOutput env_ok = ''/app/temp/output_1000.mp4''\<close>
    by (simp_all add: clip_tempInput_def clip_tempOutput_def path_join_def env_ok_def decimal_1000)
  have n: "number_string (NumFinite False 15 1) = ''1.5''"
    "number_string (NumFinite False 1 22) = ''1e+21''"
    by (simp_all add: num_eval)
  from t h have e: "execs (trace (clip env_ok unquoted_request {})) = [clip_command env_ok unquoted_request]"
    by blast
  from t h(4,5) have \<open>clip_command env_ok unquoted_request =
        ''ffmpeg -ss '' @ ''1; echo x'' @ '' -to '' @ ''9 -an''
          @ '' -i "'' @ clip_tempInput env_ok
          @ ''" -vf "scale=1080:1920:force_original_aspect_ratio=decrease,pad=1080:1920:(ow-iw)/2:(oh-ih)/2" -c:v libx264 -c:a aac -preset ultrafast -crf 30 -threads 1 -y "''
          @ clip_tempOutput env_ok @ ''"''\<close>
    by blast
  then have c: \<open>clip_command env_ok unquoted_request =
     ''ffmpeg -ss 1; echo x -to 9 -an -i "/app/temp/input_1000.mp4" -vf "scale=1080:1920:force_original_aspect_ratio=decrease,pad=1080:1920:(ow-iw)/2:(oh-ih)/2" -c:v libx264 -c:a aac -preset ultrafast -crf 30 -threads 1 -y "/app/temp/output_1000.mp4"''\<close>
    by (simp add: p)
  from u g(1) h(2,3)
  have f: "execs (trace (clip env_ok fractional_request {})) = [clip_command env_ok fractional_request]"
    by blast
  from u g(2,3) have \<open>clip_command env_ok fractional_request =
        ''ffmpeg -ss '' @ number_string (NumFinite False 15 1) @ '' -to ''
          @ number_string (NumFinite False 1 22)
          @ '' -i "'' @ clip_tempInput env_ok
          @ ''" -vf "scale=1080:1920:force_original_aspect_ratio=decrease,pad=1080:1920:(ow-iw)/2:(oh-ih)/2" -c:v libx264 -c:a aac -preset ultrafast -crf 30 -threads 1 -y "''
          @ clip_tempOutput env_ok @ ''"''\<close>
    by blast
  then have d: \<open>clip_command env_ok fractional_request =
     ''ffmpeg -ss 1.5 -to 1e+21 -i "/app/temp/input_1000.mp4" -vf "scale=1080:1920:force_original_aspect_ratio=decrease,pad=1080:1920:(ow-iw)/2:(oh-ih)/2" -c:v libx264 -c:a aac -preset ultrafast -crf 30 -threads 1 -y "/app/temp/output_1000.mp4"''\<close>
    unfolding p n by simp
  from e c f d h g show ?thesis by simp
qed

end
